theory Spec2Isabelle
  imports Complex_Main
begin

section \<open>The stockbroker agent graph\<close>

text \<open>
  A shallow embedding of the agent graph of the stockbroker backend: the router
  \<open>shouldContinue\<close>, the nodes \<open>callModel\<close>, \<open>preparePurchaseDetails\<close> and
  \<open>executePurchase\<close>, the two channel reducers of the workflow, and the loop that the
  compiled graph runs over them.

  JavaScript strings are modelled by \<open>string\<close>, numbers by the rationals (the values a
  JSON number literal denotes; the code only compares and prints them), \<open>undefined\<close>
  and \<open>null\<close> by \<open>None\<close> or a constructor of their own where the code tells them
  apart, and a \<open>throw\<close> by the left injection of a sum.
\<close>

subsection \<open>Data\<close>

text \<open>\<open>StockPurchase\<close>, the inferred type of \<open>stockPurchaseSchema\<close>.\<close>

record StockPurchase =
  ticker :: string
  quantity :: rat
  maxPurchasePrice :: rat

text \<open>
  The argument object of a tool call, as far as the graph reads it: every field may be
  missing.
\<close>

record toolArgs =
  arg_ticker :: "string option"
  arg_companyName :: "string option"
  arg_quantity :: "rat option"
  arg_maxPurchasePrice :: "rat option"

record toolCall =
  tc_id :: "string option"
  tc_name :: string
  tc_args :: toolArgs

text \<open>
  Messages by their \<open>_getType()\<close>. An \<open>AIMessage\<close> carries its content and its
  \<open>tool_calls\<close>; a missing \<open>tool_calls\<close> is the empty list, which every read in the
  source (\<open>?.length\<close>, \<open>?.find\<close>, \<open>?? []\<close>) treats alike. A \<open>ToolMessage\<close> carries
  its \<open>tool_call_id\<close> and its content.
\<close>

datatype message =
    HumanMessage string
  | SystemMessage string
  | AIMessage string "toolCall list"
  | ToolMessage string string

text \<open>The state of the graph (\<open>AppStateSchema.State\<close>).\<close>

record state =
  messages :: "message list"
  requestedStockPurchaseDetails :: "StockPurchase option"

datatype error =
    TypeError string
  | ExpectedToolCalls
  | ExpectedAIMessage
  | ExpectedPurchaseStockToolCall
  | PurchaseToolCallIdMissing
  | ToolCallIdMissingInMapping
  | MaxPurchasePriceUndefined
  | MissingPurchaseDetails
  | CannotFindToolCallId
  | ExternalFailure string

datatype node = LLM_NODE | TOOLS_NODE | PREPARE_PURCHASE_NODE | EXECUTE_PURCHASE_NODE

text \<open>What \<open>shouldContinue\<close> returns: \<open>END\<close>, one node name, or an array of them.\<close>

datatype route = END | Goto node | Fanout "node list"

text \<open>
  What a node writes to a channel. For \<open>messages\<close>: nothing, one message or an array.
  For \<open>requestedStockPurchaseDetails\<close>: \<open>undefined\<close>, \<open>null\<close> or a record.
\<close>

datatype messagesUpdate = NoMessages | OneMessage message | ManyMessages "message list"

datatype detailsUpdate = UndefinedDetails | NullDetails | Details StockPurchase

text \<open>
  The partial state a node returns. \<open>upd_details = None\<close> is a returned object without
  the key \<open>requestedStockPurchaseDetails\<close>.
\<close>

record update =
  upd_messages :: messagesUpdate
  upd_details :: "detailsUpdate option"

text \<open>A parsed JSON value, as \<open>JSON.parse\<close> returns it.\<close>

datatype json =
    JNull
  | JBool bool
  | JNum rat
  | JStr string
  | JArr "json list"
  | JObj "(string \<times> json) list"

text \<open>
  A text that is parsed later: the text \<open>JSON.stringify\<close> writes for a value, or a
  text that is not JSON.
\<close>

datatype toolText = JsonText json | OtherText string

text \<open>
  The reply of the endpoint \<open>/prices/snapshot\<close>, as \<open>SnapshotResponse\<close> and
  \<open>Snapshot\<close> declare it.
\<close>

record Snapshot =
  snap_price :: rat
  snap_ticker :: string
  snap_day_change :: rat
  snap_day_change_percent :: rat
  snap_time :: string
  snap_time_nanoseconds :: rat

record SnapshotResponse =
  snapshot :: Snapshot

text \<open>
  What the graph calls and does not define: the chat model, the prebuilt tool node, the
  web search, the structured extraction, the request to the financial data service for a
  price snapshot, and of the JavaScript runtime the message of the \<open>SyntaxError\<close> that
  \<open>JSON.parse\<close> throws on a text and the conversion of a number to a string. A call
  that throws returns \<open>Inl\<close> with the message of what was thrown.
\<close>

record env =
  llmInvoke :: "message list \<Rightarrow> string + (string \<times> toolCall list)"
  toolNodeInvoke :: "message list \<Rightarrow> string + message list"
  webSearchInvoke :: "string \<Rightarrow> string + string"
  extractTickerInvoke :: "string \<Rightarrow> string \<Rightarrow> string + string"
  pricesSnapshotAPI :: "string \<Rightarrow> string + SnapshotResponse"
  syntaxErrorMessage :: "string \<Rightarrow> string"
  numberToString :: "rat \<Rightarrow> string"

subsection \<open>Strings of the runtime\<close>

text \<open>
  \<open>JSON.stringify\<close> of a string: the quotation mark and the backslash are escaped,
  control characters are written with their short escape or as \<open>\u00XX\<close>.
\<close>

definition hexDigit :: "nat \<Rightarrow> char" where
  "hexDigit n = ''0123456789abcdef'' ! (n mod 16)"

definition backslash :: char where
  "backslash = CHR 0x5C"

definition jsonEscapeChar :: "char \<Rightarrow> string" where
  "jsonEscapeChar c =
     (if c = CHR 0x22 then [backslash, CHR 0x22]
      else if c = backslash then [backslash, backslash]
      else if c = CHR 0x08 then [backslash, CHR ''b'']
      else if c = CHR 0x0C then [backslash, CHR ''f'']
      else if c = CHR 0x0A then [backslash, CHR ''n'']
      else if c = CHR 0x0D then [backslash, CHR ''r'']
      else if c = CHR 0x09 then [backslash, CHR ''t'']
      else if (of_char c :: nat) < 32
        then [backslash, CHR ''u'', CHR ''0'', CHR ''0'',
              hexDigit (of_char c div 16), hexDigit (of_char c mod 16)]
      else [c])"

definition jsonString :: "string \<Rightarrow> string" where
  "jsonString s = [CHR 0x22] @ concat (map jsonEscapeChar s) @ [CHR 0x22]"

text \<open>
  \<open>JSON.stringify(requestedStockPurchaseDetails)\<close>: the keys in the order the object
  literal gives them.
\<close>

definition stringifyPurchase :: "env \<Rightarrow> StockPurchase \<Rightarrow> string" where
  "stringifyPurchase e p =
     ''{'' @ jsonString ''ticker'' @ '':'' @ jsonString (ticker p) @ '','' @
     jsonString ''quantity'' @ '':'' @ numberToString e (quantity p) @ '','' @
     jsonString ''maxPurchasePrice'' @ '':'' @ numberToString e (maxPurchasePrice p) @ ''}''"

text \<open>
  The decimal digits of a natural number and of a fraction below one, and the string
  JavaScript gives a number that has a short decimal expansion (an integer, or a decimal
  such as 190.25, below \<open>10^21\<close> in size): the number-to-string conversion of the
  example environments.
\<close>

fun digitsOf :: "nat \<Rightarrow> string" where
  "digitsOf n =
     (if n < 10 then [hexDigit n] else digitsOf (n div 10) @ [hexDigit (n mod 10)])"

fun fractionDigits :: "nat \<Rightarrow> rat \<Rightarrow> string" where
  "fractionDigits 0 q = []"
| "fractionDigits (Suc n) q =
     (if q = 0 then []
      else hexDigit (nat \<lfloor>q * 10\<rfloor>) # fractionDigits n (q * 10 - of_int \<lfloor>q * 10\<rfloor>))"

definition decimalToString :: "rat \<Rightarrow> string" where
  "decimalToString q =
     (if q < 0 then ''-'' else '''') @ digitsOf (nat \<lfloor>\<bar>q\<bar>\<rfloor>) @
     (if \<bar>q\<bar> = of_int \<lfloor>\<bar>q\<bar>\<rfloor> then []
      else ''.'' @ fractionDigits 17 (\<bar>q\<bar> - of_int \<lfloor>\<bar>q\<bar>\<rfloor>))"

subsection \<open>The router\<close>

text \<open>
  \<open>shouldContinue\<close>. Reading \<open>_getType\<close> of \<open>messages[messages.length - 1]\<close> throws a
  \<open>TypeError\<close> when there is no message.
\<close>

definition shouldContinue :: "state \<Rightarrow> error + route" where
  "shouldContinue st =
     (if messages st = [] then Inl (TypeError ''_getType'')
      else case last (messages st) of
        AIMessage c tool_calls \<Rightarrow>
          if tool_calls = [] then Inr END
          else if requestedStockPurchaseDetails st \<noteq> None then Inr (Goto EXECUTE_PURCHASE_NODE)
          else if tool_calls = [] then Inl ExpectedToolCalls
          else Inr (Fanout (map (\<lambda>tc. if tc_name tc = ''purchase_stock''
                                       then PREPARE_PURCHASE_NODE else TOOLS_NODE) tool_calls))
      | _ \<Rightarrow> Inr END)"

subsection \<open>Purchase preparation\<close>

text \<open>JavaScript's truthiness of an optional string: neither \<open>undefined\<close> nor empty.\<close>

definition truthy :: "string option \<Rightarrow> bool" where
  "truthy s = (case s of None \<Rightarrow> False | Some v \<Rightarrow> v \<noteq> [])"

text \<open>
  \<open>findCompanyName\<close>: a web search for the ticker symbol, then a structured extraction
  over the search results.
\<close>

definition findCompanyName :: "env \<Rightarrow> string \<Rightarrow> error + string" where
  "findCompanyName e companyName =
     (case webSearchInvoke e (''What is the ticker symbol for '' @ companyName @ ''?'') of
        Inl msg \<Rightarrow> Inl (ExternalFailure msg)
      | Inr searchResults \<Rightarrow>
          (case extractTickerInvoke e companyName
                  (''Given the following search results, extract the ticker symbol for '' @
                   companyName @ '':'' @ [CHR 0x0A] @ searchResults) of
             Inl msg \<Rightarrow> Inl (ExternalFailure msg)
           | Inr extractedTicker \<Rightarrow> Inr extractedTicker))"

text \<open>
  \<open>priceSnapshotTool\<close>: the reply of the service is returned as \<open>JSON.stringify\<close>
  writes it, an object with the one key \<open>snapshot\<close>; when the request throws, the tool
  returns a sentence with the message instead.
\<close>

definition snapshotJson :: "SnapshotResponse \<Rightarrow> json" where
  "snapshotJson d =
     JObj [(''snapshot'',
            JObj [(''price'', JNum (snap_price (snapshot d))),
                  (''ticker'', JStr (snap_ticker (snapshot d))),
                  (''day_change'', JNum (snap_day_change (snapshot d))),
                  (''day_change_percent'', JNum (snap_day_change_percent (snapshot d))),
                  (''time'', JStr (snap_time (snapshot d))),
                  (''time_nanoseconds'', JNum (snap_time_nanoseconds (snapshot d)))])]"

definition priceSnapshotTool :: "env \<Rightarrow> string \<Rightarrow> toolText" where
  "priceSnapshotTool e tkr =
     (case pricesSnapshotAPI e tkr of
        Inr d \<Rightarrow> JsonText (snapshotJson d)
      | Inl msg \<Rightarrow> OtherText (''An error occurred while fetching price snapshots: '' @ msg))"

text \<open>
  \<open>JSON.parse\<close> gives back the value that \<open>JSON.stringify\<close> wrote, and throws a
  \<open>SyntaxError\<close> on a text that is not JSON.
\<close>

definition JSON_parse :: "env \<Rightarrow> toolText \<Rightarrow> string + json" where
  "JSON_parse e t =
     (case t of JsonText v \<Rightarrow> Inr v | OtherText s \<Rightarrow> Inl (syntaxErrorMessage e s))"

text \<open>
  The \<open>try\<close> block of \<open>preparePurchaseDetails\<close>: parse the snapshot, read its
  \<open>price\<close>, and throw unless it is a number. \<open>Inl\<close> is the message the \<open>catch\<close>
  receives. Reading a property of \<open>null\<close> throws; of any other value that has no such
  property it gives \<open>undefined\<close>. Of a repeated key \<open>JSON.parse\<close> keeps the last.
\<close>

definition parsePrice :: "env \<Rightarrow> toolText \<Rightarrow> string + rat" where
  "parsePrice e priceSnapshotOutput =
     (case JSON_parse e priceSnapshotOutput of
        Inl msg \<Rightarrow> Inl msg
      | Inr JNull \<Rightarrow> Inl ''Cannot read properties of null (reading 'price')''
      | Inr (JObj kvs) \<Rightarrow>
          (case map_of (rev kvs) ''price'' of
             Some (JNum currentPrice) \<Rightarrow> Inr currentPrice
           | _ \<Rightarrow> Inl ''Price is not a number'')
      | Inr _ \<Rightarrow> Inl ''Price is not a number'')"

text \<open>
  The branch without ticker and without company name: one tool message for every tool
  call of the assistant message, and a throw at the first call without an id.
\<close>

fun missingInfoMessages :: "toolCall list \<Rightarrow> error + message list" where
  "missingInfoMessages [] = Inr []"
| "missingInfoMessages (tc # tcs) =
     (case tc_id tc of
        None \<Rightarrow> Inl ToolCallIdMissingInMapping
      | Some i \<Rightarrow>
          if i = [] then Inl ToolCallIdMissingInMapping
          else (case missingInfoMessages tcs of
                  Inl err \<Rightarrow> Inl err
                | Inr ms \<Rightarrow> Inr (ToolMessage i (''Missing info for '' @ tc_name tc) # ms)))"

text \<open>
  \<open>preparePurchaseDetails\<close> from the point where \<open>ticker\<close> holds the ticker given or
  found: the second \<open>!ticker\<close> test, the price snapshot, the default quantity, the
  throw on a missing \<open>maxPurchasePrice\<close>, the comparison with the ceiling.
\<close>

definition purchaseWithTicker :: "env \<Rightarrow> string \<Rightarrow> toolArgs \<Rightarrow> string \<Rightarrow> error + update" where
  "purchaseWithTicker e callId args tkr =
     (if tkr = [] then
        Inr \<lparr>upd_messages = ManyMessages
                [ToolMessage callId ''Could not determine ticker.'',
                 AIMessage ''Could not determine ticker.'' []],
             upd_details = None\<rparr>
      else case parsePrice e (priceSnapshotTool e tkr) of
        Inl msg \<Rightarrow>
          Inr \<lparr>upd_messages = ManyMessages [ToolMessage callId (''Price error: '' @ msg)],
               upd_details = None\<rparr>
      | Inr currentPrice \<Rightarrow>
          (let qty = (case arg_quantity args of None \<Rightarrow> 1 | Some q \<Rightarrow> q) in
           case arg_maxPurchasePrice args of
             None \<Rightarrow> Inl MaxPurchasePriceUndefined
           | Some maxPrice \<Rightarrow>
               if currentPrice > maxPrice then
                 Inr \<lparr>upd_messages = ManyMessages
                         [ToolMessage callId
                            (''Price '' @ numberToString e currentPrice @ '' > max '' @
                             numberToString e maxPrice)],
                      upd_details = None\<rparr>
               else
                 (let details = \<lparr>ticker = tkr, quantity = qty, maxPurchasePrice = maxPrice\<rparr> in
                  Inr \<lparr>upd_messages = ManyMessages
                          [ToolMessage callId (stringifyPurchase e details)],
                       upd_details = Some (Details details)\<rparr>)))"

definition preparePurchaseDetails :: "env \<Rightarrow> state \<Rightarrow> error + update" where
  "preparePurchaseDetails e st =
     (if messages st = [] then Inl (TypeError ''_getType'')
      else case last (messages st) of
        AIMessage c tool_calls \<Rightarrow>
          (case find (\<lambda>tc. tc_name tc = ''purchase_stock'') tool_calls of
             None \<Rightarrow> Inl ExpectedPurchaseStockToolCall
           | Some purchaseStockToolCall \<Rightarrow>
               (case tc_id purchaseStockToolCall of
                  None \<Rightarrow> Inl PurchaseToolCallIdMissing
                | Some callId \<Rightarrow>
                    if callId = [] then Inl PurchaseToolCallIdMissing
                    else
                      (let args = tc_args purchaseStockToolCall in
                       case (if truthy (arg_ticker args) then arg_ticker args else None) of
                         Some tkr \<Rightarrow> purchaseWithTicker e callId args tkr
                       | None \<Rightarrow>
                           (case (if truthy (arg_companyName args)
                                  then arg_companyName args else None) of
                              None \<Rightarrow>
                                (case missingInfoMessages tool_calls of
                                   Inl err \<Rightarrow> Inl err
                                 | Inr toolMessages \<Rightarrow>
                                     Inr \<lparr>upd_messages = ManyMessages
                                             (toolMessages @
                                              [AIMessage ''Ticker or company name required.'' []]),
                                          upd_details = None\<rparr>)
                            | Some companyName \<Rightarrow>
                                (case findCompanyName e companyName of
                                   Inl err \<Rightarrow> Inl err
                                 | Inr tkr \<Rightarrow> purchaseWithTicker e callId args tkr)))))
      | _ \<Rightarrow> Inl ExpectedAIMessage)"

subsection \<open>Purchase execution\<close>

text \<open>
  The backward loop of \<open>executePurchase\<close>, over the history newest first. In each
  assistant message it takes the first call that is named \<open>purchase_stock\<close> or whose
  \<open>ticker\<close> argument is the pending ticker, and stops when that call has an id.
\<close>

definition relevantCall :: "string \<Rightarrow> toolCall \<Rightarrow> bool" where
  "relevantCall pendingTicker tc \<longleftrightarrow>
     tc_name tc = ''purchase_stock'' \<or> arg_ticker (tc_args tc) = Some pendingTicker"

fun searchBackward :: "string \<Rightarrow> message list \<Rightarrow> string option" where
  "searchBackward pendingTicker [] = None"
| "searchBackward pendingTicker (AIMessage c tool_calls # older) =
     (case find (relevantCall pendingTicker) tool_calls of
        Some relevantToolCall \<Rightarrow>
          if truthy (tc_id relevantToolCall) then tc_id relevantToolCall
          else searchBackward pendingTicker older
      | None \<Rightarrow> searchBackward pendingTicker older)"
| "searchBackward pendingTicker (msg # older) = searchBackward pendingTicker older"

text \<open>
  The fallback: the first call of the newest assistant message that has tool calls.
\<close>

definition hasToolCalls :: "message \<Rightarrow> bool" where
  "hasToolCalls m = (case m of AIMessage c tool_calls \<Rightarrow> tool_calls \<noteq> [] | _ \<Rightarrow> False)"

definition fallbackToolCallId :: "message list \<Rightarrow> string option" where
  "fallbackToolCallId msgs =
     (case find hasToolCalls (rev msgs) of
        Some (AIMessage c (tc # tcs)) \<Rightarrow> (if truthy (tc_id tc) then tc_id tc else None)
      | _ \<Rightarrow> None)"

definition originalToolCallId :: "state \<Rightarrow> string \<Rightarrow> string option" where
  "originalToolCallId st pendingTicker =
     (case searchBackward pendingTicker (rev (messages st)) of
        Some i \<Rightarrow> Some i
      | None \<Rightarrow> fallbackToolCallId (messages st))"

text \<open>
  The id that the backward loop of \<open>executePurchase\<close> takes from one message, if any:
  the id of the first call of an assistant message that is named \<open>purchase_stock\<close> or
  has the pending ticker as its \<open>ticker\<close> argument.
\<close>

definition bindableId :: "string \<Rightarrow> message \<Rightarrow> string option" where
  "bindableId pendingTicker m =
     (case m of
        AIMessage c tool_calls \<Rightarrow>
          (case find (relevantCall pendingTicker) tool_calls of
             Some tc \<Rightarrow> if truthy (tc_id tc) then tc_id tc else None
           | None \<Rightarrow> None)
      | _ \<Rightarrow> None)"

definition confirmation :: "env \<Rightarrow> StockPurchase \<Rightarrow> string" where
  "confirmation e p =
     ''Simulated purchase of '' @ numberToString e (quantity p) @ '' of '' @ ticker p @
     '' at <= '' @ numberToString e (maxPurchasePrice p) @ ''.''"

definition executePurchase :: "env \<Rightarrow> state \<Rightarrow> error + update" where
  "executePurchase e st =
     (case requestedStockPurchaseDetails st of
        None \<Rightarrow> Inl MissingPurchaseDetails
      | Some details \<Rightarrow>
          (case originalToolCallId st (ticker details) of
             None \<Rightarrow> Inl CannotFindToolCallId
           | Some callId \<Rightarrow>
               Inr \<lparr>upd_messages = ManyMessages [ToolMessage callId (confirmation e details)],
                    upd_details = Some NullDetails\<rparr>))"

subsection \<open>The model node and the channels\<close>

text \<open>
  \<open>callModel\<close>: the chat model is invoked on the system prompt and the history, and its
  answer, an assistant message, is returned as the one new message.
\<close>

definition callModel :: "env \<Rightarrow> state \<Rightarrow> error + update" where
  "callModel e st =
     (case llmInvoke e (messages st) of
        Inl msg \<Rightarrow> Inl (ExternalFailure msg)
      | Inr (c, tool_calls) \<Rightarrow>
          Inr \<lparr>upd_messages = ManyMessages [AIMessage c tool_calls], upd_details = None\<rparr>)"

text \<open>The prebuilt tool node: the messages it returns are appended, nothing else.\<close>

definition toolNode :: "env \<Rightarrow> state \<Rightarrow> error + update" where
  "toolNode e st =
     (case toolNodeInvoke e (messages st) of
        Inl msg \<Rightarrow> Inl (ExternalFailure msg)
      | Inr ms \<Rightarrow> Inr \<lparr>upd_messages = ManyMessages ms, upd_details = None\<rparr>)"

text \<open>The reducers of the two channels, as the workflow declares them.\<close>

definition messagesReducer :: "message list \<Rightarrow> messagesUpdate \<Rightarrow> message list" where
  "messagesReducer current upd =
     (if current = [] then
        (case upd of ManyMessages ms \<Rightarrow> ms | OneMessage m \<Rightarrow> [m] | NoMessages \<Rightarrow> [])
      else case upd of
        NoMessages \<Rightarrow> current
      | OneMessage m \<Rightarrow> current @ [m]
      | ManyMessages ms \<Rightarrow> current @ ms)"

definition detailsReducer :: "StockPurchase option \<Rightarrow> detailsUpdate \<Rightarrow> StockPurchase option" where
  "detailsReducer current upd =
     (case upd of UndefinedDetails \<Rightarrow> None | NullDetails \<Rightarrow> None | Details p \<Rightarrow> Some p)"

text \<open>
  How the graph merges the partial state of a node into the state: each channel that the
  node wrote goes through its reducer, a channel it did not write keeps its value.
\<close>

definition applyUpdate :: "state \<Rightarrow> update \<Rightarrow> state" where
  "applyUpdate st u =
     \<lparr>messages = messagesReducer (messages st) (upd_messages u),
      requestedStockPurchaseDetails =
        (case upd_details u of
           None \<Rightarrow> requestedStockPurchaseDetails st
         | Some d \<Rightarrow> detailsReducer (requestedStockPurchaseDetails st) d)\<rparr>"

subsection \<open>The compiled graph\<close>

text \<open>
  The entry point is the model node; \<open>shouldContinue\<close> is its conditional edge; every
  other node has an edge back to the model node. The destinations of a conditional edge
  run once each, on the same state, and their updates are merged one after the other, in
  the order of the names of the nodes: \<open>execute_purchase\<close>, \<open>llm\<close>,
  \<open>prepare_purchase_details\<close>, \<open>tools\<close>.
\<close>

definition nodesByName :: "node list" where
  "nodesByName = [EXECUTE_PURCHASE_NODE, LLM_NODE, PREPARE_PURCHASE_NODE, TOOLS_NODE]"

definition runNode :: "env \<Rightarrow> node \<Rightarrow> state \<Rightarrow> error + update" where
  "runNode e n st =
     (case n of
        LLM_NODE \<Rightarrow> callModel e st
      | TOOLS_NODE \<Rightarrow> toolNode e st
      | PREPARE_PURCHASE_NODE \<Rightarrow> preparePurchaseDetails e st
      | EXECUTE_PURCHASE_NODE \<Rightarrow> executePurchase e st)"

definition destinations :: "route \<Rightarrow> node list" where
  "destinations r =
     (case r of
        END \<Rightarrow> []
      | Goto n \<Rightarrow> [n]
      | Fanout ns \<Rightarrow> filter (\<lambda>n. n \<in> set ns) nodesByName)"

fun runNodes :: "env \<Rightarrow> node list \<Rightarrow> state \<Rightarrow> error + update list" where
  "runNodes e [] st = Inr []"
| "runNodes e (n # ns) st =
     (case runNode e n st of
        Inl err \<Rightarrow> Inl err
      | Inr u \<Rightarrow> (case runNodes e ns st of Inl err \<Rightarrow> Inl err | Inr us \<Rightarrow> Inr (u # us)))"

text \<open>
  A run ends with the state returned to the caller, with the error thrown, or at the
  limit on the number of cycles. The run also records which node was entered in which
  state.
\<close>

datatype outcome = Finished state | Failed error | RecursionLimit state

fun runGraph :: "env \<Rightarrow> nat \<Rightarrow> state \<Rightarrow> (node \<times> state) list \<times> outcome" where
  "runGraph e 0 st = ([], RecursionLimit st)"
| "runGraph e (Suc limit) st =
     (case callModel e st of
        Inl err \<Rightarrow> ([(LLM_NODE, st)], Failed err)
      | Inr u \<Rightarrow>
          (let st1 = applyUpdate st u in
           case shouldContinue st1 of
             Inl err \<Rightarrow> ([(LLM_NODE, st)], Failed err)
           | Inr END \<Rightarrow> ([(LLM_NODE, st)], Finished st1)
           | Inr r \<Rightarrow>
               (let entered = (LLM_NODE, st) # map (\<lambda>n. (n, st1)) (destinations r) in
                case runNodes e (destinations r) st1 of
                  Inl err \<Rightarrow> (entered, Failed err)
                | Inr us \<Rightarrow>
                    (case runGraph e limit (foldl applyUpdate st1 us) of
                       (later, out) \<Rightarrow> (entered @ later, out)))))"

text \<open>The tool-call ids of the tool messages of a list, in order.\<close>

fun toolResultIds :: "message list \<Rightarrow> string list" where
  "toolResultIds [] = []"
| "toolResultIds (ToolMessage i c # ms) = i # toolResultIds ms"
| "toolResultIds (m # ms) = toolResultIds ms"

text \<open>The messages an update appends.\<close>

definition written :: "update \<Rightarrow> message list" where
  "written u =
     (case upd_messages u of NoMessages \<Rightarrow> [] | OneMessage m \<Rightarrow> [m] | ManyMessages ms \<Rightarrow> ms)"

subsection \<open>The tool schema\<close>


subsection \<open>Example environment\<close>

text \<open>
  An environment for the examples: the service replies to a request for the snapshot of
  a ticker with the price given by \<open>prices\<close>; the model's answers are given by
  \<open>script\<close>; searches fail.
\<close>

definition exampleSnapshot :: "string \<Rightarrow> rat \<Rightarrow> SnapshotResponse" where
  "exampleSnapshot tkr p =
     \<lparr>snapshot =
        \<lparr>snap_price = p, snap_ticker = tkr, snap_day_change = 0,
         snap_day_change_percent = 0, snap_time = ''2025-01-02T15:00:00Z'',
         snap_time_nanoseconds = 1735830000000000000\<rparr>\<rparr>"

definition exampleEnv ::
  "(string \<Rightarrow> rat) \<Rightarrow> (message list \<Rightarrow> string \<times> toolCall list) \<Rightarrow> env" where
  "exampleEnv prices script =
     \<lparr>llmInvoke = (\<lambda>ms. Inr (script ms)),
      toolNodeInvoke = (\<lambda>ms. Inr []),
      webSearchInvoke = (\<lambda>q. Inl ''offline''),
      extractTickerInvoke = (\<lambda>n q. Inl ''offline''),
      pricesSnapshotAPI = (\<lambda>t. Inr (exampleSnapshot t (prices t))),
      syntaxErrorMessage = (\<lambda>s. ''Unexpected token''),
      numberToString = decimalToString\<rparr>"

definition purchaseCall :: "string \<Rightarrow> toolArgs \<Rightarrow> toolCall" where
  "purchaseCall i args = \<lparr>tc_id = Some i, tc_name = ''purchase_stock'', tc_args = args\<rparr>"

definition aaplArgs :: toolArgs where
  "aaplArgs = \<lparr>arg_ticker = Some ''AAPL'', arg_companyName = None,
               arg_quantity = Some 5, arg_maxPurchasePrice = Some 300\<rparr>"

definition aaplState :: state where
  "aaplState =
     \<lparr>messages = [HumanMessage ''Buy 5 AAPL at up to 300'',
                  AIMessage [] [purchaseCall ''call_1'' aaplArgs]],
      requestedStockPurchaseDetails = None\<rparr>"

definition aaplPurchase :: StockPurchase where
  "aaplPurchase = \<lparr>ticker = ''AAPL'', quantity = 5, maxPurchasePrice = 300\<rparr>"

text \<open>
  A state with a pending purchase, as a caller may hand it to the graph, and the state
  after the model's next tool request.
\<close>

definition pendingState :: state where
  "pendingState =
     \<lparr>messages = messages aaplState @ [ToolMessage ''call_1'' ''prepared''],
      requestedStockPurchaseDetails = Some aaplPurchase\<rparr>"

definition confirmScript :: "message list \<Rightarrow> string \<times> toolCall list" where
  "confirmScript ms = (''Confirming.'', [purchaseCall ''call_2'' aaplArgs])"

definition confirmedState :: state where
  "confirmedState =
     \<lparr>messages = messages pendingState @
                  [AIMessage ''Confirming.'' [purchaseCall ''call_2'' aaplArgs]],
      requestedStockPurchaseDetails = Some aaplPurchase\<rparr>"

text \<open>A question that the model answers in plain text.\<close>

definition questionState :: state where
  "questionState =
     \<lparr>messages = [HumanMessage ''What is a ticker?''],
      requestedStockPurchaseDetails = None\<rparr>"

definition answerScript :: "message list \<Rightarrow> string \<times> toolCall list" where
  "answerScript ms = (''A ticker is the symbol of a stock.'', [])"

definition answeredState :: state where
  "answeredState =
     \<lparr>messages = [HumanMessage ''What is a ticker?'',
                  AIMessage ''A ticker is the symbol of a stock.'' []],
      requestedStockPurchaseDetails = None\<rparr>"

text \<open>Purchase requests with a ceiling of 100, without a ceiling, and without a stock.\<close>

definition ceilingArgs :: toolArgs where
  "ceilingArgs = \<lparr>arg_ticker = Some ''AAPL'', arg_companyName = None,
                  arg_quantity = None, arg_maxPurchasePrice = Some 100\<rparr>"


definition anonymousArgs :: toolArgs where
  "anonymousArgs = \<lparr>arg_ticker = None, arg_companyName = None,
                    arg_quantity = Some 5, arg_maxPurchasePrice = Some 300\<rparr>"

definition requestState :: "toolCall list \<Rightarrow> state" where
  "requestState tcs =
     \<lparr>messages = [HumanMessage ''Buy some stock''] @ [AIMessage [] tcs],
      requestedStockPurchaseDetails = None\<rparr>"

definition snapshotCall :: "string \<Rightarrow> string \<Rightarrow> toolCall" where
  "snapshotCall i t =
     \<lparr>tc_id = Some i, tc_name = ''price_snapshot'',
      tc_args = \<lparr>arg_ticker = Some t, arg_companyName = None,
                 arg_quantity = None, arg_maxPurchasePrice = None\<rparr>\<rparr>"

text \<open>The model asks for the AAPL purchase; a purchase is pending and the model asks
  for the purchase and for a price; a purchase is pending and the model asks for a price.\<close>

definition buyScript :: "message list \<Rightarrow> string \<times> toolCall list" where
  "buyScript ms = ([], [purchaseCall ''call_1'' aaplArgs])"

definition buyState :: state where
  "buyState =
     \<lparr>messages = [HumanMessage ''Buy 5 AAPL at up to 300''],
      requestedStockPurchaseDetails = None\<rparr>"

definition mixedState :: state where
  "mixedState =
     \<lparr>messages = messages pendingState @
                  [AIMessage ''Confirming.''
                     [purchaseCall ''call_2'' aaplArgs, snapshotCall ''call_3'' ''MSFT'']],
      requestedStockPurchaseDetails = Some aaplPurchase\<rparr>"

definition strayState :: state where
  "strayState =
     \<lparr>messages = [HumanMessage ''What does MSFT cost?'',
                  AIMessage [] [snapshotCall ''call_9'' ''MSFT'']],
      requestedStockPurchaseDetails = Some aaplPurchase\<rparr>"

section \<open>Properties\<close>

subsection \<open>Auxiliary facts\<close>

lemma truthy_Some [simp]: "truthy (Some i) \<longleftrightarrow> i \<noteq> []"
  by (simp add: truthy_def)

lemma truthy_None [simp]: "\<not> truthy None"
  by (simp add: truthy_def)

lemma searchBackward_append:
  "searchBackward t (xs @ ys) =
     (case searchBackward t xs of Some i \<Rightarrow> Some i | None \<Rightarrow> searchBackward t ys)"
  by (induction t xs rule: searchBackward.induct) (auto split: option.splits)

lemma decimalToString_5: "decimalToString 5 = ''5''"
  by (simp add: decimalToString_def hexDigit_def)

lemma decimalToString_300: "decimalToString 300 = ''300''"
  by (simp add: decimalToString_def hexDigit_def)

lemma parsePrice_snapshot:
  "pricesSnapshotAPI e t = Inr d \<Longrightarrow>
   parsePrice e (priceSnapshotTool e t) = Inl ''Price is not a number''"
  by (simp add: parsePrice_def priceSnapshotTool_def JSON_parse_def snapshotJson_def)

lemma exampleEnv_api:
  "pricesSnapshotAPI (exampleEnv prices script) t = Inr (exampleSnapshot t (prices t))"
  by (simp add: exampleEnv_def)

lemma prepare_with_ticker:
  assumes "messages st = hist @ [AIMessage c tcs]"
    and "find (\<lambda>tc. tc_name tc = ''purchase_stock'') tcs = Some tc"
    and "tc_id tc = Some i" and "i \<noteq> []"
    and "(arg_ticker (tc_args tc) = Some t \<and> t \<noteq> []) \<or>
         (\<not> truthy (arg_ticker (tc_args tc)) \<and> arg_companyName (tc_args tc) = Some cn \<and>
          cn \<noteq> [] \<and> findCompanyName e cn = Inr t)"
  shows "preparePurchaseDetails e st = purchaseWithTicker e i (tc_args tc) t"
  using assms by (auto simp: preparePurchaseDetails_def Let_def)

lemma purchaseWithTicker_snapshot:
  assumes "t \<noteq> []" and "pricesSnapshotAPI e t = Inr d"
  shows "purchaseWithTicker e i args t =
    Inr \<lparr>upd_messages = ManyMessages [ToolMessage i ''Price error: Price is not a number''],
         upd_details = None\<rparr>"
  using assms by (simp add: purchaseWithTicker_def parsePrice_snapshot)

subsection \<open>The purchase round trip\<close>

text \<open>
  C1, where the code departs from it. \<open>priceSnapshotTool\<close> returns the reply of the
  service, in which the price stands under the key \<open>snapshot\<close>, while the preparation
  reads \<open>price\<close> at the top of the parsed value. For an assistant message whose one tool
  call is \<open>purchase_stock\<close> with ticker AAPL, quantity 5 and ceiling 300, and a reply of
  the service with the price 190, the preparation therefore returns the tool message
  \<open>Price error: Price is not a number\<close> under the id of the call and writes no pending
  purchase: the state has none afterwards if it had none before.
\<close>

theorem round_trip_stops_at_price:
  assumes "messages st = hist @ [AIMessage c [purchaseCall i aaplArgs]]"
    and "i \<noteq> []"
    and "pricesSnapshotAPI e ''AAPL'' = Inr d"
    and "snap_price (snapshot d) = 190"
  shows "preparePurchaseDetails e st =
      Inr \<lparr>upd_messages = ManyMessages [ToolMessage i ''Price error: Price is not a number''],
           upd_details = None\<rparr> \<and>
    requestedStockPurchaseDetails
      (applyUpdate st
         \<lparr>upd_messages = ManyMessages [ToolMessage i ''Price error: Price is not a number''],
          upd_details = None\<rparr>) = requestedStockPurchaseDetails st"
proof -
  have "preparePurchaseDetails e st = purchaseWithTicker e i aaplArgs ''AAPL''"
    using assms(1,2)
    by (simp add: preparePurchaseDetails_def purchaseCall_def aaplArgs_def Let_def)
  with assms(3) show ?thesis
    by (simp add: purchaseWithTicker_snapshot applyUpdate_def)
qed

theorem round_trip_stops_at_price_witness:
  "messages aaplState =
     [HumanMessage ''Buy 5 AAPL at up to 300''] @
     [AIMessage [] [purchaseCall ''call_1'' aaplArgs]] \<and>
   pricesSnapshotAPI (exampleEnv (\<lambda>t. 190) buyScript) ''AAPL'' =
     Inr (exampleSnapshot ''AAPL'' 190) \<and>
   snap_price (snapshot (exampleSnapshot ''AAPL'' 190)) = 190 \<and>
   preparePurchaseDetails (exampleEnv (\<lambda>t. 190) buyScript) aaplState =
     Inr \<lparr>upd_messages =
            ManyMessages [ToolMessage ''call_1'' ''Price error: Price is not a number''],
          upd_details = None\<rparr> \<and>
   requestedStockPurchaseDetails
     (applyUpdate aaplState
        \<lparr>upd_messages =
           ManyMessages [ToolMessage ''call_1'' ''Price error: Price is not a number''],
         upd_details = None\<rparr>) = None"
proof -
  let ?e = "exampleEnv (\<lambda>t. 190) buyScript"
  have h1: "messages aaplState =
      [HumanMessage ''Buy 5 AAPL at up to 300''] @
      [AIMessage [] [purchaseCall ''call_1'' aaplArgs]]"
    by (simp add: aaplState_def)
  have h2: "''call_1'' \<noteq> []" by simp
  have h3: "pricesSnapshotAPI ?e ''AAPL'' = Inr (exampleSnapshot ''AAPL'' 190)"
    by (simp add: exampleEnv_api)
  have h4: "snap_price (snapshot (exampleSnapshot ''AAPL'' 190)) = 190"
    by (simp add: exampleSnapshot_def)
  have p: "requestedStockPurchaseDetails aaplState = None"
    by (simp add: aaplState_def)
  from round_trip_stops_at_price [OF h1 h2 h3 h4] h1 h3 h4 p show ?thesis
    by simp
qed

subsection \<open>The router\<close>

text \<open>
  C4. When the newest message is an assistant message with at least one tool call and a
  purchase is pending, the router returns \<open>execute_purchase\<close>, whatever the names of
  the tool calls are; the graph enters that node next, in the state the model node left.
\<close>

theorem confirmation_priority:
  assumes "messages st \<noteq> []"
    and "hasToolCalls (last (messages st))"
    and "requestedStockPurchaseDetails st = Some p"
  shows "shouldContinue st = Inr (Goto EXECUTE_PURCHASE_NODE) \<and>
    (\<forall>e limit st0 u. callModel e st0 = Inr u \<and> applyUpdate st0 u = st \<longrightarrow>
       take 2 (fst (runGraph e (Suc limit) st0)) =
         [(LLM_NODE, st0), (EXECUTE_PURCHASE_NODE, st)])"
proof -
  have r: "shouldContinue st = Inr (Goto EXECUTE_PURCHASE_NODE)"
    using assms by (auto simp: shouldContinue_def hasToolCalls_def split: message.splits)
  have "take 2 (fst (runGraph e (Suc limit) st0)) = [(LLM_NODE, st0), (EXECUTE_PURCHASE_NODE, st)]"
    if "callModel e st0 = Inr u" "applyUpdate st0 u = st" for e limit st0 u
    using that r by (simp add: destinations_def split: sum.splits prod.splits)
  with r show ?thesis by blast
qed

theorem confirmation_priority_witness:
  "messages confirmedState \<noteq> [] \<and>
   hasToolCalls (last (messages confirmedState)) \<and>
   requestedStockPurchaseDetails confirmedState = Some aaplPurchase \<and>
   shouldContinue confirmedState = Inr (Goto EXECUTE_PURCHASE_NODE) \<and>
   take 2 (fst (runGraph (exampleEnv (\<lambda>t. 190) confirmScript) (Suc 0) pendingState)) =
     [(LLM_NODE, pendingState), (EXECUTE_PURCHASE_NODE, confirmedState)]"
proof -
  let ?e = "exampleEnv (\<lambda>t. 190) confirmScript"
  let ?u = "\<lparr>upd_messages = ManyMessages [AIMessage ''Confirming.'' [purchaseCall ''call_2'' aaplArgs]],
             upd_details = None\<rparr>"
  have h1: "messages confirmedState \<noteq> []"
    by (simp add: confirmedState_def)
  have h2: "hasToolCalls (last (messages confirmedState))"
    by (simp add: confirmedState_def hasToolCalls_def)
  have h3: "requestedStockPurchaseDetails confirmedState = Some aaplPurchase"
    by (simp add: confirmedState_def)
  have c: "callModel ?e pendingState = Inr ?u"
    by (simp add: callModel_def exampleEnv_def confirmScript_def)
  have a: "applyUpdate pendingState ?u = confirmedState"
    by (simp add: applyUpdate_def messagesReducer_def pendingState_def confirmedState_def)
  from confirmation_priority [OF h1 h2 h3] c a h1 h2 h3 show ?thesis
    by blast
qed


text \<open>
  C8. When the newest message carries no tool calls (an assistant message without them,
  or a message of another type), the router returns \<open>END\<close>; the run then finishes with
  the state as it is at that point, and the model node is the only node it has entered.
\<close>

theorem stop_on_plain_answer:
  assumes "messages st \<noteq> []"
    and "\<not> hasToolCalls (last (messages st))"
  shows "shouldContinue st = Inr END \<and>
    (\<forall>e limit st0 u. callModel e st0 = Inr u \<and> applyUpdate st0 u = st \<longrightarrow>
       runGraph e (Suc limit) st0 = ([(LLM_NODE, st0)], Finished st))"
proof -
  have r: "shouldContinue st = Inr END"
    using assms by (auto simp: shouldContinue_def hasToolCalls_def split: message.splits)
  have "runGraph e (Suc limit) st0 = ([(LLM_NODE, st0)], Finished st)"
    if "callModel e st0 = Inr u" "applyUpdate st0 u = st" for e limit st0 u
    using that r by simp
  with r show ?thesis by blast
qed

theorem stop_on_plain_answer_witness:
  "messages answeredState \<noteq> [] \<and>
   \<not> hasToolCalls (last (messages answeredState)) \<and>
   shouldContinue answeredState = Inr END \<and>
   runGraph (exampleEnv (\<lambda>t. 190) answerScript) (Suc 24) questionState =
     ([(LLM_NODE, questionState)], Finished answeredState)"
proof -
  let ?e = "exampleEnv (\<lambda>t. 190) answerScript"
  let ?u = "\<lparr>upd_messages = ManyMessages [AIMessage ''A ticker is the symbol of a stock.'' []],
             upd_details = None\<rparr>"
  have h1: "messages answeredState \<noteq> []"
    by (simp add: answeredState_def)
  have h2: "\<not> hasToolCalls (last (messages answeredState))"
    by (simp add: answeredState_def hasToolCalls_def)
  have c: "callModel ?e questionState = Inr ?u"
    by (simp add: callModel_def exampleEnv_def answerScript_def)
  have a: "applyUpdate questionState ?u = answeredState"
    by (simp add: applyUpdate_def messagesReducer_def questionState_def answeredState_def)
  from stop_on_plain_answer [OF h1 h2] c a h1 h2 show ?thesis
    by blast
qed

text \<open>
  C5, as amended. The router never throws for an empty tool-call list: an assistant
  message whose tool-call list is empty is a plain answer, and the router returns
  \<open>END\<close> for it, whatever the pending purchase is.
\<close>

theorem empty_tool_calls_stop:
  "shouldContinue st \<noteq> Inl ExpectedToolCalls \<and>
   shouldContinue \<lparr>messages = hist @ [AIMessage c []], requestedStockPurchaseDetails = pending\<rparr> =
     Inr END"
  by (auto simp: shouldContinue_def split: message.splits)

text \<open>
  The claim as the specification states it fails: an assistant message with an empty
  tool-call list does not make the router throw, the run stops silently.
\<close>

theorem empty_tool_calls_counterexample:
  "shouldContinue \<lparr>messages = [HumanMessage ''Buy AAPL'', AIMessage ''On it.'' []],
                   requestedStockPurchaseDetails = None\<rparr> = Inr END"
  by (simp add: shouldContinue_def)

subsection \<open>Purchase preparation\<close>

lemma missingInfoMessages_ids:
  "\<forall>tc\<in>set tcs. truthy (tc_id tc) \<Longrightarrow>
   missingInfoMessages tcs =
     Inr (map (\<lambda>tc. ToolMessage (the (tc_id tc)) (''Missing info for '' @ tc_name tc)) tcs)"
  by (induction tcs) (auto simp: truthy_def split: option.splits)

text \<open>
  C7, where the code departs from it. When the purchase call has an id, a ticker is given
  or found, and the service replies with a price above the ceiling of the call, the
  preparation does not reach the comparison with the ceiling: it reads \<open>price\<close> at the
  top of the parsed reply, where the reply has only the key \<open>snapshot\<close>, and returns
  the tool message \<open>Price error: Price is not a number\<close> instead of one that states
  the price and the ceiling. It writes no pending purchase.
\<close>

theorem ceiling_not_reached:
  assumes "messages st = hist @ [AIMessage c tcs]"
    and "find (\<lambda>tc. tc_name tc = ''purchase_stock'') tcs = Some tc"
    and "tc_id tc = Some i" and "i \<noteq> []"
    and "(arg_ticker (tc_args tc) = Some t \<and> t \<noteq> []) \<or>
         (\<not> truthy (arg_ticker (tc_args tc)) \<and> arg_companyName (tc_args tc) = Some cn \<and>
          cn \<noteq> [] \<and> findCompanyName e cn = Inr t \<and> t \<noteq> [])"
    and "pricesSnapshotAPI e t = Inr d"
    and "arg_maxPurchasePrice (tc_args tc) = Some maxPrice"
    and "snap_price (snapshot d) > maxPrice"
  shows "preparePurchaseDetails e st =
      Inr \<lparr>upd_messages = ManyMessages [ToolMessage i ''Price error: Price is not a number''],
           upd_details = None\<rparr>"
proof -
  have "preparePurchaseDetails e st = purchaseWithTicker e i (tc_args tc) t"
    using assms(1-5) by (intro prepare_with_ticker [where cn = cn]) auto
  moreover have "t \<noteq> []" using assms(5) by auto
  ultimately show ?thesis
    using assms(6) by (simp add: purchaseWithTicker_snapshot)
qed

theorem ceiling_not_reached_witness:
  "messages (requestState [purchaseCall ''call_1'' ceilingArgs]) =
     [HumanMessage ''Buy some stock''] @ [AIMessage [] [purchaseCall ''call_1'' ceilingArgs]] \<and>
   pricesSnapshotAPI (exampleEnv (\<lambda>t. 150) answerScript) ''AAPL'' =
     Inr (exampleSnapshot ''AAPL'' 150) \<and>
   arg_maxPurchasePrice (tc_args (purchaseCall ''call_1'' ceilingArgs)) = Some 100 \<and>
   snap_price (snapshot (exampleSnapshot ''AAPL'' 150)) > 100 \<and>
   preparePurchaseDetails (exampleEnv (\<lambda>t. 150) answerScript)
     (requestState [purchaseCall ''call_1'' ceilingArgs]) =
     Inr \<lparr>upd_messages =
            ManyMessages [ToolMessage ''call_1'' ''Price error: Price is not a number''],
          upd_details = None\<rparr>"
proof -
  let ?e = "exampleEnv (\<lambda>t. 150) answerScript"
  let ?tc = "purchaseCall ''call_1'' ceilingArgs"
  have h1: "messages (requestState [?tc]) = [HumanMessage ''Buy some stock''] @ [AIMessage [] [?tc]]"
    by (simp add: requestState_def)
  have h2: "find (\<lambda>tc. tc_name tc = ''purchase_stock'') [?tc] = Some ?tc"
    by (simp add: purchaseCall_def)
  have h3: "tc_id ?tc = Some ''call_1''"
    by (simp add: purchaseCall_def)
  have h4: "''call_1'' \<noteq> []" by simp
  have h5: "(arg_ticker (tc_args ?tc) = Some ''AAPL'' \<and> ''AAPL'' \<noteq> []) \<or>
         (\<not> truthy (arg_ticker (tc_args ?tc)) \<and> arg_companyName (tc_args ?tc) = Some [] \<and>
          [] \<noteq> [] \<and> findCompanyName ?e [] = Inr ''AAPL'' \<and> ''AAPL'' \<noteq> [])"
    by (simp add: purchaseCall_def ceilingArgs_def)
  have h6: "pricesSnapshotAPI ?e ''AAPL'' = Inr (exampleSnapshot ''AAPL'' 150)"
    by (simp add: exampleEnv_api)
  have h7: "arg_maxPurchasePrice (tc_args ?tc) = Some 100"
    by (simp add: purchaseCall_def ceilingArgs_def)
  have h8: "snap_price (snapshot (exampleSnapshot ''AAPL'' 150)) > 100"
    by (simp add: exampleSnapshot_def)
  from ceiling_not_reached [OF h1 h2 h3 h4 h5 h6 h7 h8] h1 h6 h7 h8
  show ?thesis by simp
qed

text \<open>
  C9. When the purchase call has neither a ticker nor a company name, and the tool calls
  of the message carry their ids, the preparation does not throw: it returns one tool
  message for each tool call of the message, asking for the missing information, then
  an assistant message asking for the ticker or the company name, and it writes no
  pending purchase.
\<close>

theorem missing_identity_clarification:
  assumes "messages st = hist @ [AIMessage c tcs]"
    and "find (\<lambda>tc. tc_name tc = ''purchase_stock'') tcs = Some tc"
    and "\<forall>tc'\<in>set tcs. truthy (tc_id tc')"
    and "\<not> truthy (arg_ticker (tc_args tc))"
    and "\<not> truthy (arg_companyName (tc_args tc))"
  shows "\<exists>u. preparePurchaseDetails e st = Inr u \<and>
    written u =
      map (\<lambda>tc'. ToolMessage (the (tc_id tc')) (''Missing info for '' @ tc_name tc')) tcs @
      [AIMessage ''Ticker or company name required.'' []] \<and>
    upd_details u = None \<and>
    requestedStockPurchaseDetails (applyUpdate st u) = requestedStockPurchaseDetails st"
proof -
  have "tc \<in> set tcs"
    using assms(2) by (auto simp: find_Some_iff)
  then have "truthy (tc_id tc)"
    using assms(3) by blast
  then obtain i where "tc_id tc = Some i" "i \<noteq> []"
    by (auto simp: truthy_def split: option.splits)
  then show ?thesis
    using assms by (simp add: preparePurchaseDetails_def Let_def missingInfoMessages_ids
        written_def applyUpdate_def)
qed

theorem missing_identity_clarification_witness:
  "messages (requestState [purchaseCall ''call_1'' anonymousArgs, snapshotCall ''call_2'' ''MSFT'']) =
     [HumanMessage ''Buy some stock''] @
     [AIMessage [] [purchaseCall ''call_1'' anonymousArgs, snapshotCall ''call_2'' ''MSFT'']] \<and>
   \<not> truthy (arg_ticker (tc_args (purchaseCall ''call_1'' anonymousArgs))) \<and>
   \<not> truthy (arg_companyName (tc_args (purchaseCall ''call_1'' anonymousArgs))) \<and>
   (\<exists>u. preparePurchaseDetails (exampleEnv (\<lambda>t. 190) answerScript)
          (requestState [purchaseCall ''call_1'' anonymousArgs, snapshotCall ''call_2'' ''MSFT'']) =
        Inr u \<and>
     written u =
       [ToolMessage ''call_1'' ''Missing info for purchase_stock'',
        ToolMessage ''call_2'' ''Missing info for price_snapshot'',
        AIMessage ''Ticker or company name required.'' []] \<and>
     upd_details u = None \<and>
     requestedStockPurchaseDetails
       (applyUpdate (requestState [purchaseCall ''call_1'' anonymousArgs,
                                   snapshotCall ''call_2'' ''MSFT'']) u) = None)"
proof -
  let ?e = "exampleEnv (\<lambda>t. 190) answerScript"
  let ?tc = "purchaseCall ''call_1'' anonymousArgs"
  let ?tcs = "[?tc, snapshotCall ''call_2'' ''MSFT'']"
  have h1: "messages (requestState ?tcs) = [HumanMessage ''Buy some stock''] @ [AIMessage [] ?tcs]"
    by (simp add: requestState_def)
  have h2: "find (\<lambda>tc. tc_name tc = ''purchase_stock'') ?tcs = Some ?tc"
    by (simp add: purchaseCall_def)
  have h3: "\<forall>tc'\<in>set ?tcs. truthy (tc_id tc')"
    by (simp add: purchaseCall_def snapshotCall_def)
  have h4: "\<not> truthy (arg_ticker (tc_args ?tc))"
    by (simp add: purchaseCall_def anonymousArgs_def)
  have h5: "\<not> truthy (arg_companyName (tc_args ?tc))"
    by (simp add: purchaseCall_def anonymousArgs_def)
  have p: "requestedStockPurchaseDetails (requestState ?tcs) = None"
    by (simp add: requestState_def)
  from missing_identity_clarification [OF h1 h2 h3 h4 h5, of ?e] h1 h4 h5 p
  show ?thesis by (simp add: purchaseCall_def snapshotCall_def)
qed



subsection \<open>The pending purchase along a run\<close>

lemma shouldContinue_pending:
  assumes "shouldContinue st = Inr r"
    and "requestedStockPurchaseDetails st \<noteq> None"
    and "n \<in> set (destinations r)"
  shows "n = EXECUTE_PURCHASE_NODE"
  using assms
  by (auto simp: shouldContinue_def destinations_def split: if_splits message.splits)

lemma callModel_keeps_pending:
  "callModel e s = Inr u \<Longrightarrow>
   requestedStockPurchaseDetails (applyUpdate s u) = requestedStockPurchaseDetails s"
  by (auto simp: callModel_def applyUpdate_def split: sum.splits)

lemma runGraph_entered:
  assumes "(n, s) \<in> set (fst (runGraph e limit st0))"
    and "requestedStockPurchaseDetails s \<noteq> None"
  shows "n = LLM_NODE \<or> n = EXECUTE_PURCHASE_NODE"
  using assms
proof (induction limit arbitrary: st0)
  case 0
  then show ?case by simp
next
  case (Suc limit)
  show ?case
  proof (cases "callModel e st0")
    case (Inl err)
    with Suc.prems show ?thesis by simp
  next
    case (Inr u)
    let ?st1 = "applyUpdate st0 u"
    show ?thesis
    proof (cases "shouldContinue ?st1")
      case (Inl err)
      with Inr Suc.prems show ?thesis by simp
    next
      case r: (Inr r)
      show ?thesis
      proof (cases "runNodes e (destinations r) ?st1")
        case (Inl err)
        with Inr r Suc.prems
        have "(n, s) = (LLM_NODE, st0) \<or> (n \<in> set (destinations r) \<and> s = ?st1)"
          by (cases r) (auto simp: destinations_def)
        with r Suc.prems(2) show ?thesis
          by (auto dest: shouldContinue_pending)
      next
        case us: (Inr us)
        obtain later out where rec: "runGraph e limit (foldl applyUpdate ?st1 us) = (later, out)"
          by (cases "runGraph e limit (foldl applyUpdate ?st1 us)")
        with Inr r us Suc.prems
        have "(n, s) = (LLM_NODE, st0) \<or> (n \<in> set (destinations r) \<and> s = ?st1) \<or>
              (n, s) \<in> set (fst (runGraph e limit (foldl applyUpdate ?st1 us)))"
          by (cases r) (auto simp: destinations_def)
        with r Suc.prems(2) Suc.IH show ?thesis
          by (auto dest: shouldContinue_pending)
      qed
    qed
  qed
qed

text \<open>
  C2. The pending purchase of a state is absent or one record. In every run of the graph,
  from any state and under any environment: the preparation is entered only in states
  without a pending purchase, so it never overwrites one; in a state with a pending
  purchase the only nodes entered are the model node and the execution; and a node other
  than the execution that is entered with a pending purchase leaves it as it is.
\<close>

theorem single_pending_purchase:
  "\<forall>(n, s) \<in> set (fst (runGraph e limit st0)).
     (n = PREPARE_PURCHASE_NODE \<longrightarrow> requestedStockPurchaseDetails s = None) \<and>
     (requestedStockPurchaseDetails s \<noteq> None \<longrightarrow> n = LLM_NODE \<or> n = EXECUTE_PURCHASE_NODE) \<and>
     (\<forall>u. runNode e n s = Inr u \<and> n \<noteq> EXECUTE_PURCHASE_NODE \<and>
           requestedStockPurchaseDetails s \<noteq> None \<longrightarrow>
           requestedStockPurchaseDetails (applyUpdate s u) = requestedStockPurchaseDetails s)"
proof (clarify, intro conjI allI impI)
  fix n s
  assume in_run: "(n, s) \<in> set (fst (runGraph e limit st0))"
  show "requestedStockPurchaseDetails s = None" if "n = PREPARE_PURCHASE_NODE"
  proof (rule ccontr)
    assume "requestedStockPurchaseDetails s \<noteq> None"
    from runGraph_entered [OF in_run this] that show False by simp
  qed
  show "n = LLM_NODE \<or> n = EXECUTE_PURCHASE_NODE" if "requestedStockPurchaseDetails s \<noteq> None"
    using runGraph_entered [OF in_run that] .
  show "requestedStockPurchaseDetails (applyUpdate s u) = requestedStockPurchaseDetails s"
    if "runNode e n s = Inr u \<and> n \<noteq> EXECUTE_PURCHASE_NODE \<and> requestedStockPurchaseDetails s \<noteq> None"
    for u
  proof -
    from that have "requestedStockPurchaseDetails s \<noteq> None" by simp
    from runGraph_entered [OF in_run this] that have "n = LLM_NODE" by simp
    with that show ?thesis
      by (auto simp: runNode_def dest: callModel_keeps_pending)
  qed
qed

theorem single_pending_purchase_witness:
  "(PREPARE_PURCHASE_NODE, aaplState) \<in>
     set (fst (runGraph (exampleEnv (\<lambda>t. 190) buyScript) (Suc 0) buyState)) \<and>
   requestedStockPurchaseDetails aaplState = None"
proof -
  let ?e = "exampleEnv (\<lambda>t. 190) buyScript"
  let ?u = "\<lparr>upd_messages = ManyMessages [AIMessage [] [purchaseCall ''call_1'' aaplArgs]],
             upd_details = None\<rparr>"
  have c: "callModel ?e buyState = Inr ?u"
    by (simp add: callModel_def exampleEnv_def buyScript_def)
  have a: "applyUpdate buyState ?u = aaplState"
    by (simp add: applyUpdate_def messagesReducer_def buyState_def aaplState_def)
  have r: "shouldContinue aaplState = Inr (Fanout [PREPARE_PURCHASE_NODE])"
    by (simp add: shouldContinue_def aaplState_def purchaseCall_def)
  have m: "(PREPARE_PURCHASE_NODE, aaplState) \<in> set (fst (runGraph ?e (Suc 0) buyState))"
    using c a r by (simp add: destinations_def nodesByName_def split: sum.splits prod.splits)
  from single_pending_purchase [of ?e "Suc 0" buyState] m show ?thesis
    by blast
qed

subsection \<open>Purchase execution\<close>

lemma searchBackward_None_iff:
  "searchBackward t ms = None \<longleftrightarrow> (\<forall>m\<in>set ms. bindableId t m = None)"
  by (induction t ms rule: searchBackward.induct)
     (auto simp: bindableId_def split: option.splits)

lemma searchBackward_newest:
  assumes "\<forall>m\<in>set newer. bindableId t m = None" and "bindableId t m = Some j"
  shows "searchBackward t (newer @ m # older) = Some j"
proof -
  have "searchBackward t newer = None"
    using assms(1) by (simp add: searchBackward_None_iff)
  moreover have "searchBackward t (m # older) = Some j"
    using assms(2) by (cases m) (auto simp: bindableId_def split: option.splits if_splits)
  ultimately show ?thesis
    by (simp add: searchBackward_append)
qed

lemma searchBackward_rev_None:
  "\<forall>m\<in>set ms. bindableId t m = None \<Longrightarrow> searchBackward t (rev ms) = None"
  by (simp add: searchBackward_None_iff)

lemma find_newest:
  assumes "\<forall>m\<in>set newer. \<not> P m" and "P m"
  shows "find P (newer @ m # older) = Some m"
  using assms by (induction newer) auto

lemma find_none: "(\<forall>m\<in>set ms. \<not> P m) \<Longrightarrow> find P ms = None"
  by (induction ms) auto

lemma exampleEnv_confirmation:
  "confirmation (exampleEnv prices script) aaplPurchase =
     ''Simulated purchase of 5 of AAPL at <= 300.''"
  by (simp add: confirmation_def exampleEnv_def aaplPurchase_def
      decimalToString_5 decimalToString_300)

text \<open>
  C6, as amended. With a purchase pending, the execution binds its confirmation to the
  newest assistant message that has a call named \<open>purchase_stock\<close> or a call with the
  pending ticker as its \<open>ticker\<close> argument, if the first such call of that message has
  an id. When no message of the history has one, it binds to the first call of the newest
  assistant message with tool calls, and throws only if that call has no id or no
  message has tool calls.
\<close>

theorem originating_call_binding:
  assumes "requestedStockPurchaseDetails st = Some p"
  shows
    "(\<forall>hist m rest j.
        messages st = hist @ [m] @ rest \<and> bindableId (ticker p) m = Some j \<and>
        (\<forall>m'\<in>set rest. bindableId (ticker p) m' = None) \<longrightarrow>
        executePurchase e st =
          Inr \<lparr>upd_messages = ManyMessages [ToolMessage j (confirmation e p)],
               upd_details = Some NullDetails\<rparr>) \<and>
     (\<forall>hist c tc tcs rest j.
        (\<forall>m\<in>set (messages st). bindableId (ticker p) m = None) \<and>
        messages st = hist @ [AIMessage c (tc # tcs)] @ rest \<and>
        (\<forall>m'\<in>set rest. \<not> hasToolCalls m') \<and> tc_id tc = Some j \<and> j \<noteq> [] \<longrightarrow>
        executePurchase e st =
          Inr \<lparr>upd_messages = ManyMessages [ToolMessage j (confirmation e p)],
               upd_details = Some NullDetails\<rparr>) \<and>
     (\<forall>hist c tc tcs rest.
        (\<forall>m\<in>set (messages st). bindableId (ticker p) m = None) \<and>
        messages st = hist @ [AIMessage c (tc # tcs)] @ rest \<and>
        (\<forall>m'\<in>set rest. \<not> hasToolCalls m') \<and> \<not> truthy (tc_id tc) \<longrightarrow>
        executePurchase e st = Inl CannotFindToolCallId) \<and>
     ((\<forall>m\<in>set (messages st). bindableId (ticker p) m = None \<and> \<not> hasToolCalls m) \<longrightarrow>
        executePurchase e st = Inl CannotFindToolCallId)"
proof (intro conjI allI impI)
  fix hist m rest j
  assume a: "messages st = hist @ [m] @ rest \<and> bindableId (ticker p) m = Some j \<and>
        (\<forall>m'\<in>set rest. bindableId (ticker p) m' = None)"
  then have "searchBackward (ticker p) (rev (messages st)) = Some j"
    using searchBackward_newest [of "rev rest" "ticker p" m j "rev hist"] by simp
  then show "executePurchase e st =
          Inr \<lparr>upd_messages = ManyMessages [ToolMessage j (confirmation e p)],
               upd_details = Some NullDetails\<rparr>"
    using assms by (simp add: executePurchase_def originalToolCallId_def)
next
  fix hist c tc tcs rest j
  assume a: "(\<forall>m\<in>set (messages st). bindableId (ticker p) m = None) \<and>
        messages st = hist @ [AIMessage c (tc # tcs)] @ rest \<and>
        (\<forall>m'\<in>set rest. \<not> hasToolCalls m') \<and> tc_id tc = Some j \<and> j \<noteq> []"
  then have none: "searchBackward (ticker p) (rev (messages st)) = None"
    by (intro searchBackward_rev_None) blast
  have "find hasToolCalls (rev (messages st)) = Some (AIMessage c (tc # tcs))"
    using a find_newest [of "rev rest" hasToolCalls "AIMessage c (tc # tcs)" "rev hist"]
    by (simp add: hasToolCalls_def)
  then have "fallbackToolCallId (messages st) = Some j"
    using a by (simp add: fallbackToolCallId_def)
  with none show "executePurchase e st =
          Inr \<lparr>upd_messages = ManyMessages [ToolMessage j (confirmation e p)],
               upd_details = Some NullDetails\<rparr>"
    using assms by (simp add: executePurchase_def originalToolCallId_def)
next
  fix hist c tc tcs rest
  assume a: "(\<forall>m\<in>set (messages st). bindableId (ticker p) m = None) \<and>
        messages st = hist @ [AIMessage c (tc # tcs)] @ rest \<and>
        (\<forall>m'\<in>set rest. \<not> hasToolCalls m') \<and> \<not> truthy (tc_id tc)"
  then have none: "searchBackward (ticker p) (rev (messages st)) = None"
    by (intro searchBackward_rev_None) blast
  have "find hasToolCalls (rev (messages st)) = Some (AIMessage c (tc # tcs))"
    using a find_newest [of "rev rest" hasToolCalls "AIMessage c (tc # tcs)" "rev hist"]
    by (simp add: hasToolCalls_def)
  then have "fallbackToolCallId (messages st) = None"
    using a by (simp add: fallbackToolCallId_def)
  with none show "executePurchase e st = Inl CannotFindToolCallId"
    using assms by (simp add: executePurchase_def originalToolCallId_def)
next
  assume a: "\<forall>m\<in>set (messages st). bindableId (ticker p) m = None \<and> \<not> hasToolCalls m"
  then have none: "searchBackward (ticker p) (rev (messages st)) = None"
    by (intro searchBackward_rev_None) blast
  have "find hasToolCalls (rev (messages st)) = None"
    using a by (intro find_none) simp
  then have "fallbackToolCallId (messages st) = None"
    by (simp add: fallbackToolCallId_def)
  with none show "executePurchase e st = Inl CannotFindToolCallId"
    using assms by (simp add: executePurchase_def originalToolCallId_def)
qed

theorem originating_call_binding_witness:
  "requestedStockPurchaseDetails confirmedState = Some aaplPurchase \<and>
   bindableId (ticker aaplPurchase)
     (AIMessage ''Confirming.'' [purchaseCall ''call_2'' aaplArgs]) = Some ''call_2'' \<and>
   executePurchase (exampleEnv (\<lambda>t. 190) confirmScript) confirmedState =
     Inr \<lparr>upd_messages =
            ManyMessages [ToolMessage ''call_2'' ''Simulated purchase of 5 of AAPL at <= 300.''],
          upd_details = Some NullDetails\<rparr>"
proof -
  let ?e = "exampleEnv (\<lambda>t. 190) confirmScript"
  let ?m = "AIMessage ''Confirming.'' [purchaseCall ''call_2'' aaplArgs]"
  have h: "requestedStockPurchaseDetails confirmedState = Some aaplPurchase"
    by (simp add: confirmedState_def)
  have m: "messages confirmedState = messages pendingState @ [?m] @ []"
    by (simp add: confirmedState_def)
  have b: "bindableId (ticker aaplPurchase) ?m = Some ''call_2''"
    by (simp add: bindableId_def relevantCall_def purchaseCall_def)
  have r: "\<forall>m'\<in>set []. bindableId (ticker aaplPurchase) m' = None"
    by simp
  from originating_call_binding [OF h, of ?e] m b r
  have "executePurchase ?e confirmedState =
          Inr \<lparr>upd_messages = ManyMessages [ToolMessage ''call_2'' (confirmation ?e aaplPurchase)],
               upd_details = Some NullDetails\<rparr>"
    by blast
  with h b show ?thesis
    by (simp add: exampleEnv_confirmation)
qed

text \<open>
  The claim as the specification states it fails: with no call named \<open>purchase_stock\<close>
  in the history, the execution does not throw but binds its confirmation to the call of
  another tool.
\<close>

theorem originating_call_binding_counterexample:
  "executePurchase (exampleEnv (\<lambda>t. 190) confirmScript) strayState =
     Inr \<lparr>upd_messages =
            ManyMessages [ToolMessage ''call_9'' ''Simulated purchase of 5 of AAPL at <= 300.''],
          upd_details = Some NullDetails\<rparr>"
  by (simp add: executePurchase_def strayState_def originalToolCallId_def relevantCall_def
      snapshotCall_def aaplPurchase_def fallbackToolCallId_def hasToolCalls_def
      confirmation_def exampleEnv_def decimalToString_5 decimalToString_300)

subsection \<open>Tool results of a cycle\<close>

lemma prepare_single_call:
  assumes "messages st = hist @ [AIMessage c [tc]]"
    and "tc_name tc = ''purchase_stock''"
    and "tc_id tc = Some i" and "i \<noteq> []"
    and "preparePurchaseDetails e st = Inr u"
  shows "toolResultIds (written u) = [i]"
  using assms
  by (auto simp: preparePurchaseDetails_def purchaseWithTicker_def Let_def written_def
      split: if_splits option.splits sum.splits)

lemma execute_single_call:
  assumes "messages st = hist @ [AIMessage c [tc]]"
    and "tc_name tc = ''purchase_stock''"
    and "tc_id tc = Some i" and "i \<noteq> []"
    and "executePurchase e st = Inr u"
  shows "toolResultIds (written u) = [i]"
proof -
  have "searchBackward t (rev (messages st)) = Some i" for t
    using assms(1-4) by (simp add: relevantCall_def)
  then show ?thesis
    using assms(5)
    by (auto simp: executePurchase_def originalToolCallId_def written_def split: option.splits)
qed

text \<open>
  C3, as amended. When the assistant message carries one tool call, a \<open>purchase_stock\<close>
  call with an id, the router sends the cycle to the preparation or, with a purchase
  pending, to the execution; whenever that node returns, the messages it appends hold
  one tool message, and it carries the id of that call.
\<close>

theorem single_purchase_call_result:
  assumes "messages st = hist @ [AIMessage c [tc]]"
    and "tc_name tc = ''purchase_stock''"
    and "tc_id tc = Some i" and "i \<noteq> []"
    and "shouldContinue st = Inr r"
    and "runNodes e (destinations r) st = Inr us"
  shows "(r = Fanout [PREPARE_PURCHASE_NODE] \<or> r = Goto EXECUTE_PURCHASE_NODE) \<and>
    toolResultIds (concat (map written us)) = [i]"
proof (cases "requestedStockPurchaseDetails st")
  case None
  with assms(1,2,5) have r: "r = Fanout [PREPARE_PURCHASE_NODE]"
    by (auto simp: shouldContinue_def)
  with assms(6) obtain u where "us = [u]" "preparePurchaseDetails e st = Inr u"
    by (auto simp: destinations_def nodesByName_def runNode_def split: sum.splits)
  with prepare_single_call [OF assms(1-4)] r show ?thesis by simp
next
  case (Some p)
  with assms(1,5) have r: "r = Goto EXECUTE_PURCHASE_NODE"
    by (auto simp: shouldContinue_def)
  with assms(6) obtain u where "us = [u]" "executePurchase e st = Inr u"
    by (auto simp: destinations_def runNode_def split: sum.splits)
  with execute_single_call [OF assms(1-4)] r show ?thesis by simp
qed

theorem single_purchase_call_result_witness:
  "messages aaplState = [HumanMessage ''Buy 5 AAPL at up to 300''] @
     [AIMessage [] [purchaseCall ''call_1'' aaplArgs]] \<and>
   shouldContinue aaplState = Inr (Fanout [PREPARE_PURCHASE_NODE]) \<and>
   (\<exists>u. runNodes (exampleEnv (\<lambda>t. 190) buyScript) [PREPARE_PURCHASE_NODE] aaplState = Inr [u] \<and>
        toolResultIds (concat (map written [u])) = [''call_1''])"
proof -
  let ?e = "exampleEnv (\<lambda>t. 190) buyScript"
  let ?tc = "purchaseCall ''call_1'' aaplArgs"
  have h1: "messages aaplState = [HumanMessage ''Buy 5 AAPL at up to 300''] @ [AIMessage [] [?tc]]"
    by (simp add: aaplState_def)
  have h2: "tc_name ?tc = ''purchase_stock''" by (simp add: purchaseCall_def)
  have h3: "tc_id ?tc = Some ''call_1''" by (simp add: purchaseCall_def)
  have h4: "''call_1'' \<noteq> []" by simp
  have h5: "shouldContinue aaplState = Inr (Fanout [PREPARE_PURCHASE_NODE])"
    by (simp add: shouldContinue_def aaplState_def purchaseCall_def)
  obtain u where h6: "runNodes ?e [PREPARE_PURCHASE_NODE] aaplState = Inr [u]"
    by (simp add: runNode_def preparePurchaseDetails_def aaplState_def purchaseCall_def
        aaplArgs_def purchaseWithTicker_snapshot exampleEnv_api Let_def)
  then have h6': "runNodes ?e (destinations (Fanout [PREPARE_PURCHASE_NODE])) aaplState = Inr [u]"
    by (simp add: destinations_def nodesByName_def)
  from single_purchase_call_result [OF h1 h2 h3 h4 h5 h6'] h1 h5 h6 show ?thesis
    by blast
qed

text \<open>
  The claim as the specification states it fails: with a purchase pending and two tool
  calls in the assistant message, the cycle runs the execution only, which appends one
  tool message; the history then holds no tool result for the second call.
\<close>

theorem tool_result_completeness_counterexample:
  "shouldContinue mixedState = Inr (Goto EXECUTE_PURCHASE_NODE) \<and>
   runNodes (exampleEnv (\<lambda>t. 190) confirmScript) [EXECUTE_PURCHASE_NODE] mixedState =
     Inr [\<lparr>upd_messages =
             ManyMessages [ToolMessage ''call_2'' ''Simulated purchase of 5 of AAPL at <= 300.''],
           upd_details = Some NullDetails\<rparr>] \<and>
   ''call_3'' \<notin> set (toolResultIds (messages (applyUpdate mixedState
     \<lparr>upd_messages =
        ManyMessages [ToolMessage ''call_2'' ''Simulated purchase of 5 of AAPL at <= 300.''],
      upd_details = Some NullDetails\<rparr>)))"
  by (simp add: shouldContinue_def mixedState_def pendingState_def aaplState_def runNode_def
      executePurchase_def originalToolCallId_def relevantCall_def purchaseCall_def
      exampleEnv_confirmation applyUpdate_def messagesReducer_def)

end
